theory Spec2Isabelle
  imports
    Main
    "HOL-Library.Word"
    "HOL-Library.Multiset"
    "HOL-Library.List_Lexorder"
    "HOL-Library.Char_ord"
begin

section \<open>sc2reader/objects.py: values and exceptions\<close>

text \<open>
  The module is Python 2 code: a \<^verbatim>\<open>str\<close> is a byte string, which is exactly a
  \<^typ>\<open>string\<close> (a list of 8-bit characters) here; comparison of two such strings is
  the lexicographic order on bytes, which is the order that \<open>List_Lexorder\<close> and
  \<open>Char_ord\<close> give to \<^typ>\<open>string\<close>. Python integers are \<^typ>\<open>int\<close>.

  Every exception that the modelled methods can raise is a constructor of \<open>error\<close>, and
  a method that can raise returns \<open>error + 'a\<close> with \<open>Inl\<close> for the exception.
\<close>

datatype error = IndexError | KeyError | ValueError | AttributeError

section \<open>Attribute\<close>

text \<open>
  The value of an attribute is a byte string until a transform of \<open>id_map\<close> replaces it:
  by the string found in a table of \<^verbatim>\<open>sc2reader.constants\<close>, or by the integer that
  \<^verbatim>\<open>lambda value: int(value[0])\<close> returns.
\<close>

datatype attr_value = StrV string | IntV int

text \<open>
  The second component of an \<open>id_map\<close> entry: \<^verbatim>\<open>None\<close>, one of the dictionaries
  of \<^verbatim>\<open>sc2reader.constants\<close>, or the lambda \<^verbatim>\<open>lambda value: int(value[0])\<close>
  (the six lambdas of the table are the same function). A dictionary is kept as an
  association list read with \<^const>\<open>map_of\<close>.
\<close>

datatype lookup = NoLookup | Table "(string \<times> string) list" | IntOfFirst

text \<open>
  \<^verbatim>\<open>from sc2reader.constants import *\<close>: the seven code tables come from a module that
  is not part of \<^verbatim>\<open>objects.py\<close>; they are a parameter of everything that reads them.
\<close>

record constants =
  PLAYER_TYPE_CODES :: "(string \<times> string) list"
  GAME_FORMAT_CODES :: "(string \<times> string) list"
  GAME_SPEED_CODES :: "(string \<times> string) list"
  RACE_CODES :: "(string \<times> string) list"
  TEAM_COLOR_CODES :: "(string \<times> string) list"
  DIFFICULTY_CODES :: "(string \<times> string) list"
  GAME_TYPE_CODES :: "(string \<times> string) list"

definition id_map :: "constants \<Rightarrow> (int \<times> string \<times> lookup) list" where
  "id_map c =
    [(0x01F4, ''Player Type'', Table (PLAYER_TYPE_CODES c)),
     (0x07D1, ''Game Type'', Table (GAME_FORMAT_CODES c)),
     (0x0BB8, ''Game Speed'', Table (GAME_SPEED_CODES c)),
     (0x0BB9, ''Race'', Table (RACE_CODES c)),
     (0x0BBA, ''Color'', Table (TEAM_COLOR_CODES c)),
     (0x0BBB, ''Handicap'', NoLookup),
     (0x0BBC, ''Difficulty'', Table (DIFFICULTY_CODES c)),
     (0x0BC1, ''Category'', Table (GAME_TYPE_CODES c)),
     (0x07D2, ''Teams1v1'', IntOfFirst),
     (0x07D3, ''Teams2v2'', IntOfFirst),
     (0x07D4, ''Teams3v3'', IntOfFirst),
     (0x07D5, ''Teams4v4'', IntOfFirst),
     (0x07D6, ''TeamsFFA'', IntOfFirst),
     (0x07D7, ''Teams5v5'', IntOfFirst)]"

text \<open>
  \<^verbatim>\<open>if lookup:\<close> is Python's truth test: \<^verbatim>\<open>None\<close> and the empty dictionary are
  false, a function is true. \<^verbatim>\<open>callable(lookup)\<close> holds of the lambda only.
\<close>

fun truthy :: "lookup \<Rightarrow> bool" where
  "truthy NoLookup = False"
| "truthy (Table t) = (t \<noteq> [])"
| "truthy IntOfFirst = True"

fun callable :: "lookup \<Rightarrow> bool" where
  "callable IntOfFirst = True"
| "callable _ = False"

text \<open>
  \<^verbatim>\<open>int(s)\<close> of a one-character byte string: the digit's value, and
  \<^verbatim>\<open>ValueError\<close> for every other character.
\<close>

definition int_of_char :: "char \<Rightarrow> error + int" where
  "int_of_char ch =
    (if CHR ''0'' \<le> ch \<and> ch \<le> CHR ''9'' then Inr (int (of_char ch) - 48)
     else Inl ValueError)"

text \<open>\<^verbatim>\<open>lookup(self.value)\<close> for the lambda: \<^verbatim>\<open>int(value[0])\<close>.\<close>

definition call_lookup :: "string \<Rightarrow> error + attr_value" where
  "call_lookup v =
    (case v of
       [] \<Rightarrow> Inl IndexError
     | ch # _ \<Rightarrow> (case int_of_char ch of Inl e \<Rightarrow> Inl e | Inr n \<Rightarrow> Inr (IntV n)))"

text \<open>\<^verbatim>\<open>lookup[self.value]\<close> for a dictionary: \<^verbatim>\<open>KeyError\<close> on a missing key.\<close>

definition getitem :: "(string \<times> string) list \<Rightarrow> string \<Rightarrow> error + attr_value" where
  "getitem t v = (case map_of t v of None \<Rightarrow> Inl KeyError | Some w \<Rightarrow> Inr (StrV w))"

text \<open>
  \<^verbatim>\<open>while self.value[-1] == '\x00': self.value = self.value[:-1]\<close>.
  \<^verbatim>\<open>self.value[-1]\<close> raises \<^verbatim>\<open>IndexError\<close> on the empty string; the loop
  has no other exit than a last byte that is not null.
\<close>

function strip_nulls :: "string \<Rightarrow> error + string" where
  "strip_nulls v =
    (if v = [] then Inl IndexError
     else if last v = CHR 0x00 then strip_nulls (butlast v)
     else Inr v)"
  by pat_completeness auto
termination
  by (relation "measure length") auto

declare strip_nulls.simps [simp del]

text \<open>
  The object that \<^verbatim>\<open>Attribute.__init__\<close> fills. The fields \<^verbatim>\<open>id\<close>,
  \<^verbatim>\<open>value\<close> and \<^verbatim>\<open>name\<close> carry a prime, since the plain names are taken.
\<close>

record Attribute =
  header :: int
  id' :: int
  player :: int
  value' :: attr_value
  name' :: string

text \<open>
  \<^verbatim>\<open>Attribute.__init__(self, data)\<close>, with \<^verbatim>\<open>data\<close> the four-element list
  \<^verbatim>\<open>[header, id, player, value]\<close>. The name starts as \<^verbatim>\<open>"Unknown"\<close>; an entry
  of \<open>id_map\<close> overrides it and, when its lookup is true, transforms the value.
\<close>

definition Attribute_init :: "constants \<Rightarrow> int \<times> int \<times> int \<times> string \<Rightarrow> error + Attribute" where
  "Attribute_init c data =
    (case data of (h, i, p, v) \<Rightarrow>
      (case strip_nulls v of
         Inl e \<Rightarrow> Inl e
       | Inr s \<Rightarrow>
          (case map_of (id_map c) i of
             None \<Rightarrow>
               Inr \<lparr>header = h, id' = i, player = p, value' = StrV s, name' = ''Unknown''\<rparr>
           | Some (nm, lookup) \<Rightarrow>
               if truthy lookup then
                 (case (if callable lookup then call_lookup s
                        else (case lookup of Table t \<Rightarrow> getitem t s | _ \<Rightarrow> Inr (StrV s))) of
                    Inl e \<Rightarrow> Inl e
                  | Inr w \<Rightarrow> Inr \<lparr>header = h, id' = i, player = p, value' = w, name' = nm\<rparr>)
               else Inr \<lparr>header = h, id' = i, player = p, value' = StrV s, name' = nm\<rparr>)))"

section \<open>Objects and references\<close>

text \<open>
  Where a claim depends on two names reaching the same object, the object lives in a
  heap and is named by a reference: the \<^verbatim>\<open>Team\<close> objects (a \<^verbatim>\<open>Player\<close> holds a
  reference to its team, and the team's result is assigned after the players are
  linked to it), the list objects behind \<^verbatim>\<open>messages\<close> and \<^verbatim>\<open>events\<close>, and the
  dictionary objects behind \<^verbatim>\<open>stats\<close> and \<^verbatim>\<open>unknown2\<close>. Creating an object takes
  the next free reference. Chat events and game events are opaque to this module.
\<close>

type_synonym ref = nat

datatype event = Event nat

section \<open>Person, Observer, Player\<close>

text \<open>
  \<^verbatim>\<open>Person.__init__\<close> sets seven instance attributes; \<^verbatim>\<open>is_observer\<close> is
  \<^verbatim>\<open>None\<close> until a subclass sets it. \<^verbatim>\<open>messages\<close> and \<^verbatim>\<open>events\<close> are
  references to the list objects that \<^verbatim>\<open>list()\<close> creates in the constructor.
\<close>

record Person =
  pid :: int
  name :: string
  is_observer :: "bool option"
  messages :: ref
  events :: ref
  is_human :: bool
  recorder :: bool

text \<open>
  A \<^verbatim>\<open>Player\<close> reads \<^verbatim>\<open>team\<close>, \<^verbatim>\<open>color\<close>, \<^verbatim>\<open>pick_race\<close>, \<^verbatim>\<open>play_race\<close>,
  \<^verbatim>\<open>difficulty\<close>, \<^verbatim>\<open>handicap\<close>, \<^verbatim>\<open>region\<close> and \<^verbatim>\<open>subregion\<close> from the class
  until they are assigned: the class gives them the defaults \<^verbatim>\<open>None\<close>, \<^verbatim>\<open>None\<close>,
  \<^verbatim>\<open>str()\<close>, \<^verbatim>\<open>str()\<close>, \<^verbatim>\<open>str()\<close>, \<^verbatim>\<open>int()\<close>, \<^verbatim>\<open>str()\<close>, \<^verbatim>\<open>int()\<close>.
  The attributes \<^verbatim>\<open>gateway\<close> and \<^verbatim>\<open>uid\<close>, which \<^verbatim>\<open>url\<close> reads, have no
  default in the class: they exist once the loader of a replay has assigned them, and
  reading them before raises \<^verbatim>\<open>AttributeError\<close>; \<open>None\<close> stands for "not assigned".
\<close>

record Player = Person +
  team :: "ref option"
  color :: "ref option"
  pick_race :: string
  play_race :: string
  difficulty :: string
  handicap :: int
  region :: string
  subregion :: int
  gateway :: "string option"
  uid :: "int option"

section \<open>Team\<close>

text \<open>
  \<^verbatim>\<open>Team.__init__\<close> sets \<^verbatim>\<open>number\<close>, \<^verbatim>\<open>players\<close>, \<^verbatim>\<open>result\<close> and
  \<^verbatim>\<open>lineup\<close>. The list of players is kept in the team object, each player by its
  current attributes.
\<close>

record Team =
  number :: int
  players :: "Player list"
  result :: string
  lineup :: string

text \<open>
  The heap: team objects, list objects, dictionary objects (from a short code to a
  number), and the next free reference.
\<close>

record heap =
  teams :: "ref \<rightharpoonup> Team"
  lists :: "ref \<rightharpoonup> event list"
  dicts :: "ref \<rightharpoonup> (string \<rightharpoonup> int)"
  next_ref :: ref

text \<open>\<^verbatim>\<open>list()\<close> and \<^verbatim>\<open>dict()\<close>: a new empty object at the next free reference.\<close>

definition new_list :: "heap \<Rightarrow> ref \<times> heap" where
  "new_list h =
    (next_ref h, h\<lparr>lists := (lists h)(next_ref h \<mapsto> []), next_ref := Suc (next_ref h)\<rparr>)"

definition new_dict :: "heap \<Rightarrow> ref \<times> heap" where
  "new_dict h =
    (next_ref h, h\<lparr>dicts := (dicts h)(next_ref h \<mapsto> Map.empty), next_ref := Suc (next_ref h)\<rparr>)"

text \<open>\<^verbatim>\<open>Person.__init__(self, pid, name)\<close>.\<close>

definition Person_init :: "int \<Rightarrow> string \<Rightarrow> heap \<Rightarrow> Person \<times> heap" where
  "Person_init pid0 name0 h =
    (case new_list h of (m, h1) \<Rightarrow>
      (case new_list h1 of (e, h2) \<Rightarrow>
        (\<lparr>pid = pid0, name = name0, is_observer = None, messages = m, events = e,
          is_human = False, recorder = False\<rparr>, h2)))"

text \<open>
  \<^verbatim>\<open>Observer.__init__\<close>: the constructor of \<^verbatim>\<open>Person\<close>, then
  \<^verbatim>\<open>is_observer = True\<close> and \<^verbatim>\<open>is_human = True\<close>.
\<close>

definition Observer_init :: "int \<Rightarrow> string \<Rightarrow> heap \<Rightarrow> Person \<times> heap" where
  "Observer_init pid0 name0 h =
    (case Person_init pid0 name0 h of (p, h') \<Rightarrow>
      (p\<lparr>is_observer := Some True, is_human := True\<rparr>, h'))"

text \<open>
  \<^verbatim>\<open>Player.__init__\<close>: the constructor of \<^verbatim>\<open>Person\<close>, then
  \<^verbatim>\<open>is_observer = False\<close>; every other attribute of a player is the class default.
\<close>

definition Player_init :: "int \<Rightarrow> string \<Rightarrow> heap \<Rightarrow> Player \<times> heap" where
  "Player_init pid0 name0 h =
    (case Person_init pid0 name0 h of (p, h') \<Rightarrow>
      (\<lparr>pid = pid p, name = name p, is_observer = Some False, messages = messages p,
        events = events p, is_human = is_human p, recorder = recorder p,
        team = None, color = None, pick_race = [], play_race = [], difficulty = [],
        handicap = 0, region = [], subregion = 0, gateway = None, uid = None\<rparr>, h'))"

text \<open>\<^verbatim>\<open>person.messages.append(m)\<close>: the list object changes in place.\<close>

definition list_append :: "ref \<Rightarrow> event \<Rightarrow> heap \<Rightarrow> heap" where
  "list_append r m h =
    (case lists h r of None \<Rightarrow> h | Some l \<Rightarrow> h\<lparr>lists := (lists h)(r \<mapsto> l @ [m])\<rparr>)"

text \<open>\<^verbatim>\<open>Team.__init__(self, number)\<close>: a new team object, and its reference.\<close>

definition Team_init :: "int \<Rightarrow> heap \<Rightarrow> ref \<times> heap" where
  "Team_init n h =
    (next_ref h,
     h\<lparr>teams := (teams h)(next_ref h \<mapsto>
          \<lparr>number = n, players = [], result = ''Unknown'', lineup = []\<rparr>),
       next_ref := Suc (next_ref h)\<rparr>)"

text \<open>
  \<^verbatim>\<open>team.result = r\<close>, for the team object at reference \<open>t\<close>: the only thing that
  changes is the \<^verbatim>\<open>result\<close> attribute of that object.
\<close>

definition Team_set_result :: "ref \<Rightarrow> string \<Rightarrow> heap \<Rightarrow> heap" where
  "Team_set_result t r h =
    (case teams h t of
       None \<Rightarrow> h
     | Some tm \<Rightarrow> h\<lparr>teams := (teams h)(t \<mapsto> tm\<lparr>result := r\<rparr>)\<rparr>)"

text \<open>
  \<^verbatim>\<open>Player.result\<close>, a property without a setter: \<^verbatim>\<open>return self.team.result\<close>.
  With \<^verbatim>\<open>team\<close> still \<^verbatim>\<open>None\<close> the read of \<^verbatim>\<open>.result\<close> raises
  \<^verbatim>\<open>AttributeError\<close>. A \<^verbatim>\<open>Player\<close> has no field for its result.
\<close>

definition Player_result :: "heap \<Rightarrow> Player \<Rightarrow> error + string" where
  "Player_result h p =
    (case team p of
       None \<Rightarrow> Inl AttributeError
     | Some t \<Rightarrow> (case teams h t of None \<Rightarrow> Inl AttributeError | Some tm \<Rightarrow> Inr (result tm)))"

section \<open>Player.url\<close>

text \<open>\<^verbatim>\<open>'%s' % n\<close> for an integer: its decimal digits, with a minus sign below 0.\<close>

function str_nat :: "nat \<Rightarrow> string" where
  "str_nat n =
    (if n < 10 then [char_of (48 + n)]
     else str_nat (n div 10) @ [char_of (48 + n mod 10)])"
  by pat_completeness auto
termination
  by (relation "measure id") auto

declare str_nat.simps [simp del]

definition str_int :: "int \<Rightarrow> string" where
  "str_int i = (if i < 0 then CHR ''-'' # str_nat (nat (- i)) else str_nat (nat i))"

text \<open>
  \<^verbatim>\<open>URL_TEMPLATE % (a, b, c, d)\<close> with
  \<^verbatim>\<open>URL_TEMPLATE = "http://%s.battle.net/sc2/en/profile/%s/%s/%s/"\<close>.
\<close>

definition URL_TEMPLATE :: "string \<Rightarrow> string \<Rightarrow> string \<Rightarrow> string \<Rightarrow> string" where
  "URL_TEMPLATE a b c d =
    ''http://'' @ a @ ''.battle.net/sc2/en/profile/'' @ b @ ''/'' @ c @ ''/'' @ d @ ''/''"

text \<open>
  \<^verbatim>\<open>Player.url\<close>:
  \<^verbatim>\<open>return self.URL_TEMPLATE % (self.gateway, self.uid, self.subregion, self.name)\<close>.
  The four attributes are read from left to right.
\<close>

definition url :: "Player \<Rightarrow> error + string" where
  "url p =
    (case gateway p of
       None \<Rightarrow> Inl AttributeError
     | Some g \<Rightarrow>
        (case uid p of
           None \<Rightarrow> Inl AttributeError
         | Some u \<Rightarrow> Inr (URL_TEMPLATE g (str_int u) (str_int (subregion p)) (name p))))"

section \<open>hashlib.sha256\<close>

text \<open>
  \<^verbatim>\<open>hashlib.sha256(s).hexdigest()\<close> is the standard library's SHA-256 (FIPS 180-4) of
  the bytes of \<open>s\<close>, written as 64 lower-case hexadecimal digits. It is not code of this
  module; it is written out here after the standard, so that \<^verbatim>\<open>Team.hash\<close> is a closed
  function of the team. The eight 32-bit words of the state are a tuple.
\<close>

unbundle bit_operations_syntax


























section \<open>Team.hash\<close>






section \<open>Graph\<close>

text \<open>
  \<^verbatim>\<open>times\<close> and \<^verbatim>\<open>values\<close> of a graph; the second field carries a prime, the
  plain name being taken.
\<close>

record ('a, 'b) Graph =
  times :: "'a list"
  values' :: "'b list"

text \<open>
  The loop of the constructor,
  \<^verbatim>\<open>for x, y in xy_list: self.times.append(x); self.values.append(y)\<close>.
\<close>

fun append_points :: "('a \<times> 'b) list \<Rightarrow> ('a, 'b) Graph \<Rightarrow> ('a, 'b) Graph" where
  "append_points [] g = g"
| "append_points ((x, y) # l) g =
     append_points l (g\<lparr>times := times g @ [x], values' := values' g @ [y]\<rparr>)"

text \<open>
  \<^verbatim>\<open>Graph.__init__(self, x, y, xy_list=None)\<close>. Both lists start empty.
  \<^verbatim>\<open>if xy_list:\<close> is the truth test: it fails for \<^verbatim>\<open>None\<close> and for the empty list,
  and then \<^verbatim>\<open>x\<close> and \<^verbatim>\<open>y\<close> are stored as they are. Nothing compares lengths and
  nothing is raised.
\<close>

definition Graph_init :: "'a list \<Rightarrow> 'b list \<Rightarrow> ('a \<times> 'b) list option \<Rightarrow> ('a, 'b) Graph" where
  "Graph_init x y xy_list =
    (case xy_list of
       None \<Rightarrow> \<lparr>times = x, values' = y\<rparr>
     | Some l \<Rightarrow>
         if l \<noteq> [] then append_points l \<lparr>times = [], values' = []\<rparr>
         else \<lparr>times = x, values' = y\<rparr>)"

text \<open>
  \<^verbatim>\<open>as_points\<close>: \<^verbatim>\<open>return zip(self.times, self.values)\<close>; in Python 2 that is
  the list of pairs, as long as the shorter of the two.
\<close>

definition as_points :: "('a, 'b) Graph \<Rightarrow> ('a \<times> 'b) list" where
  "as_points g = zip (times g) (values' g)"

section \<open>Class attributes and PlayerSummary\<close>

text \<open>
  A class body runs once, when the module is loaded: \<^verbatim>\<open>messages = list()\<close> and
  \<^verbatim>\<open>events = list()\<close> in \<^verbatim>\<open>Person\<close>, \<^verbatim>\<open>unknown2 = dict()\<close> and
  \<^verbatim>\<open>stats = dict()\<close> in \<^verbatim>\<open>PlayerSummary\<close> each create one object that belongs to
  the class. These are their references, and \<open>module_heap\<close> is the heap once the module
  is loaded. (The class-level lists of \<^verbatim>\<open>Team\<close> and \<^verbatim>\<open>Graph\<close> are replaced by every
  constructor and hold other elements; they are left out.)
\<close>

definition Person_messages :: ref where
  "Person_messages = 0"

definition Person_events :: ref where
  "Person_events = 1"

definition PlayerSummary_unknown2 :: ref where
  "PlayerSummary_unknown2 = 2"

definition PlayerSummary_stats :: ref where
  "PlayerSummary_stats = 3"

definition module_heap :: heap where
  "module_heap =
    \<lparr>teams = Map.empty,
     lists = [Person_messages \<mapsto> [], Person_events \<mapsto> []],
     dicts = [PlayerSummary_unknown2 \<mapsto> Map.empty, PlayerSummary_stats \<mapsto> Map.empty],
     next_ref = 4\<rparr>"

text \<open>
  The instance attributes of a \<^verbatim>\<open>PlayerSummary\<close> that this development reads:
  \<^verbatim>\<open>pid\<close> (with a prime, the plain name being a field of \<^verbatim>\<open>Person\<close>), and the
  entries \<^verbatim>\<open>unknown2\<close> and \<^verbatim>\<open>stats\<close> of the instance's own dictionary, which are
  \<open>None\<close> as long as nothing was assigned to \<^verbatim>\<open>self.unknown2\<close> and \<^verbatim>\<open>self.stats\<close>.
\<close>

record PlayerSummary =
  pid' :: int
  own_unknown2 :: "ref option"
  own_stats :: "ref option"

text \<open>
  \<^verbatim>\<open>PlayerSummary.__init__(self, pid)\<close>:
  \<^verbatim>\<open>unknown2 = dict()\<close> and \<^verbatim>\<open>stats = dict()\<close> assign two new dictionaries to local
  variables of the constructor, not to attributes of \<^verbatim>\<open>self\<close>; then
  \<^verbatim>\<open>self.pid = pid\<close>.
\<close>

definition PlayerSummary_init :: "int \<Rightarrow> heap \<Rightarrow> PlayerSummary \<times> heap" where
  "PlayerSummary_init pid0 h =
    (case new_dict h of (unknown2, h1) \<Rightarrow>
      (case new_dict h1 of (stats, h2) \<Rightarrow>
        (\<lparr>pid' = pid0, own_unknown2 = None, own_stats = None\<rparr>, h2)))"

text \<open>
  Reading \<^verbatim>\<open>ps.stats\<close> and \<^verbatim>\<open>ps.unknown2\<close>: the instance's own entry when there
  is one, the attribute of the class otherwise.
\<close>

definition stats_ref :: "PlayerSummary \<Rightarrow> ref" where
  "stats_ref ps = (case own_stats ps of None \<Rightarrow> PlayerSummary_stats | Some r \<Rightarrow> r)"

definition unknown2_ref :: "PlayerSummary \<Rightarrow> ref" where
  "unknown2_ref ps = (case own_unknown2 ps of None \<Rightarrow> PlayerSummary_unknown2 | Some r \<Rightarrow> r)"

text \<open>\<^verbatim>\<open>d[k] = v\<close> on the dictionary object at reference \<open>r\<close>.\<close>

definition dict_setitem :: "ref \<Rightarrow> string \<Rightarrow> int \<Rightarrow> heap \<Rightarrow> heap" where
  "dict_setitem r k v h =
    (case dicts h r of None \<Rightarrow> h | Some d \<Rightarrow> h\<lparr>dicts := (dicts h)(r \<mapsto> d(k \<mapsto> v))\<rparr>)"

text \<open>\<^verbatim>\<open>ps.stats[k] = v\<close> and \<^verbatim>\<open>ps.stats.get(k)\<close>.\<close>

definition stats_setitem :: "PlayerSummary \<Rightarrow> string \<Rightarrow> int \<Rightarrow> heap \<Rightarrow> heap" where
  "stats_setitem ps k v h = dict_setitem (stats_ref ps) k v h"

definition stats_get :: "heap \<Rightarrow> PlayerSummary \<Rightarrow> string \<Rightarrow> int option" where
  "stats_get h ps k = (case dicts h (stats_ref ps) of None \<Rightarrow> None | Some d \<Rightarrow> d k)"

section \<open>Properties of the null stripping\<close>

lemma strip_nulls_snoc_null: "strip_nulls (v @ [CHR 0x00]) = strip_nulls v"
  by (subst strip_nulls.simps) simp

lemma strip_nulls_replicate: "strip_nulls (v @ replicate k (CHR 0x00)) = strip_nulls v"
proof (induction k)
  case 0
  show ?case by simp
next
  case (Suc k)
  have "v @ replicate (Suc k) (CHR 0x00) = (v @ replicate k (CHR 0x00)) @ [CHR 0x00]"
    by (simp add: replicate_append_same)
  then show ?case
    using Suc.IH by (simp only: strip_nulls_snoc_null)
qed

lemma strip_nulls_last: "v \<noteq> [] \<Longrightarrow> last v \<noteq> CHR 0x00 \<Longrightarrow> strip_nulls v = Inr v"
  by (subst strip_nulls.simps) simp

lemma strip_nulls_Nil: "strip_nulls [] = Inl IndexError"
  by (subst strip_nulls.simps) simp

lemma strip_nulls_all_null: "strip_nulls (replicate k (CHR 0x00)) = Inl IndexError"
  using strip_nulls_replicate [of "[]" k] by (simp add: strip_nulls_Nil)

lemma strip_nulls_trailing:
  "b \<noteq> CHR 0x00 \<Longrightarrow> strip_nulls (pre @ [b] @ replicate k (CHR 0x00)) = Inr (pre @ [b])"
  using strip_nulls_replicate [of "pre @ [b]" k] by (simp add: strip_nulls_last)

text \<open>
  What the loop returns when it returns: the value itself without its trailing null
  bytes, which is not empty and does not end in a null byte.
\<close>

lemma strip_nulls_Inr:
  "strip_nulls v = Inr s \<Longrightarrow>
     s \<noteq> [] \<and> last s \<noteq> CHR 0x00 \<and> (\<exists>k. v = s @ replicate k (CHR 0x00))"
proof (induction v rule: strip_nulls.induct)
  case (1 v)
  show ?case
  proof (cases "v = []")
    case True
    with "1.prems" show ?thesis by (simp add: strip_nulls_Nil)
  next
    case False
    show ?thesis
    proof (cases "last v = CHR 0x00")
      case True
      with False "1.prems" have "strip_nulls (butlast v) = Inr s"
        by (subst (asm) strip_nulls.simps) simp
      with "1.IH" False True obtain k where
        s: "s \<noteq> []" "last s \<noteq> CHR 0x00" and k: "butlast v = s @ replicate k (CHR 0x00)"
        by blast
      from False True have "v = butlast v @ [CHR 0x00]"
        by (metis append_butlast_last_id)
      with k have "v = s @ replicate (Suc k) (CHR 0x00)"
        by (simp add: replicate_append_same)
      with s show ?thesis by blast
    next
      case nonnull: False
      with False "1.prems" have "s = v"
        by (subst (asm) strip_nulls.simps) simp
      with False nonnull have "s \<noteq> []" "last s \<noteq> CHR 0x00" "v = s @ replicate 0 (CHR 0x00)"
        by simp_all
      then show ?thesis by blast
    qed
  qed
qed

section \<open>Properties of Attribute.__init__\<close>

lemma Attribute_init_unknown:
  "map_of (id_map c) i = None \<Longrightarrow>
     Attribute_init c (h, i, p, v) =
       (case strip_nulls v of
          Inl e \<Rightarrow> Inl e
        | Inr s \<Rightarrow>
            Inr \<lparr>header = h, id' = i, player = p, value' = StrV s, name' = ''Unknown''\<rparr>)"
  by (simp add: Attribute_init_def split: sum.splits)


section \<open>Properties of Graph\<close>

lemma append_points_eq:
  "append_points l g = \<lparr>times = times g @ map fst l, values' = values' g @ map snd l\<rparr>"
  by (induction l g rule: append_points.induct) simp_all

lemma Graph_init_pairs:
  "l \<noteq> [] \<Longrightarrow> Graph_init x y (Some l) = \<lparr>times = map fst l, values' = map snd l\<rparr>"
  by (simp add: Graph_init_def append_points_eq)

lemma Graph_init_parallel: "Graph_init x y None = \<lparr>times = x, values' = y\<rparr>"
  by (simp add: Graph_init_def)

section \<open>Properties of Team.hash\<close>














section \<open>Claims about the attribute decoder\<close>

text \<open>
  Claim C3. A byte sequence that ends in \<open>k\<close> null bytes (\<open>k\<close> may be 0) right after
  a byte \<open>b\<close> that is not null: the stripping loop returns, and what it returns is the
  sequence up to and including \<open>b\<close>. Exactly the \<open>k\<close> trailing bytes are gone; the bytes
  \<open>pre\<close> before \<open>b\<close>, null bytes among them, are all kept.
\<close>

theorem strip_nulls_removes_trailing_only:
  assumes "b \<noteq> CHR 0x00"
  shows "strip_nulls (pre @ [b] @ replicate k (CHR 0x00)) = Inr (pre @ [b])"
  using assms by (rule strip_nulls_trailing)

theorem strip_nulls_removes_trailing_only_witness:
  "CHR ''r'' \<noteq> CHR 0x00 \<and>
   strip_nulls [CHR ''T'', CHR 0x00, CHR ''r'', CHR 0x00, CHR 0x00] = Inr [CHR ''T'', CHR 0x00, CHR ''r'']"
proof -
  have h: "CHR ''r'' \<noteq> CHR 0x00" by simp
  have "[CHR ''T'', CHR 0x00] @ [CHR ''r''] @ replicate (Suc (Suc 0)) (CHR 0x00)
          = [CHR ''T'', CHR 0x00, CHR ''r'', CHR 0x00, CHR 0x00]"
    by simp
  with strip_nulls_removes_trailing_only [OF h, of "[CHR ''T'', CHR 0x00]" "Suc (Suc 0)"] h
  show ?thesis by simp
qed

text \<open>
  Claim C4. A raw value made of null bytes only, the empty value included: the loop
  strips it down to the empty string and then reads \<^verbatim>\<open>self.value[-1]\<close> of the empty
  string, so \<^verbatim>\<open>Attribute.__init__\<close> raises \<^verbatim>\<open>IndexError\<close> whatever the code is; no
  attribute with an empty value is built.
\<close>

theorem Attribute_init_all_null:
  "Attribute_init c (h, i, p, replicate k (CHR 0x00)) = Inl IndexError"
  by (simp add: Attribute_init_def strip_nulls_all_null)

text \<open>
  Claim C2. With a code that \<open>id_map\<close> does not hold, the constructor keeps the name
  \<^verbatim>\<open>"Unknown"\<close> and the stripped value, with no transform: that is
  \<open>Attribute_init_unknown\<close> above, for every raw value that the stripping loop returns
  from. For a raw value of null bytes only the loop raises \<^verbatim>\<open>IndexError\<close> (claim C4)
  and no attribute is returned, here with the code 0, which is in no table.
\<close>

theorem Attribute_init_unknown_all_null:
  "map_of (id_map c) 0 = None \<and>
   Attribute_init c (1, 0, 1, [CHR 0x00, CHR 0x00, CHR 0x00, CHR 0x00]) = Inl IndexError"
proof -
  have "replicate 4 (CHR 0x00) = [CHR 0x00, CHR 0x00, CHR 0x00, CHR 0x00]"
    by (simp add: numeral_eq_Suc)
  then have "strip_nulls [CHR 0x00, CHR 0x00, CHR 0x00, CHR 0x00] = Inl IndexError"
    using strip_nulls_all_null [of 4] by simp
  then show ?thesis
    by (simp add: Attribute_init_def id_map_def)
qed



section \<open>Claims about Graph\<close>

text \<open>
  Claim C8, as amended. The constructor has no check of the two lengths and raises
  nothing: in the parallel-sequence form it stores \<open>x\<close> as \<^verbatim>\<open>times\<close> and \<open>y\<close> as
  \<^verbatim>\<open>values\<close> whatever their lengths, so the stored sequences have the same length
  exactly when the arguments have; \<^verbatim>\<open>as_points\<close> then pairs them up to the shorter.
\<close>

theorem Graph_init_stores_parallel_sequences:
  "Graph_init x y None = \<lparr>times = x, values' = y\<rparr> \<and>
   (length (times (Graph_init x y None)) = length (values' (Graph_init x y None)))
     = (length x = length y) \<and>
   as_points (Graph_init x y None) = zip x y"
  by (simp add: Graph_init_parallel as_points_def)

text \<open>
  The claim as the specification states it fails: two times and one value are stored
  as they are, and the graph has sequences of lengths 2 and 1.
\<close>

theorem Graph_init_unequal_lengths_counterexample:
  "Graph_init [0::int, 10] [5::int] None = \<lparr>times = [0, 10], values' = [5]\<rparr> \<and>
   length (times (Graph_init [0::int, 10] [5::int] None))
     \<noteq> length (values' (Graph_init [0::int, 10] [5::int] None))"
  by (simp add: Graph_init_def)

text \<open>
  Claim C9, as amended. \<^verbatim>\<open>as_points\<close> is the element-wise zip of the stored
  sequences, as long as the shorter one. A list of pairs that is not empty gives the
  graph that its two unzipped sequences give, whatever \<open>x\<close> and \<open>y\<close> are passed beside
  it. An empty list of pairs fails the test \<^verbatim>\<open>if xy_list:\<close>, and the constructor
  stores the \<open>x\<close> and \<open>y\<close> passed beside it.
\<close>

theorem Graph_as_points_and_pairs:
  "as_points g = zip (times g) (values' g) \<and>
   length (as_points g) = min (length (times g)) (length (values' g)) \<and>
   (l \<noteq> [] \<longrightarrow> Graph_init x y (Some l) = Graph_init (map fst l) (map snd l) None) \<and>
   Graph_init x y (Some []) = \<lparr>times = x, values' = y\<rparr>"
  by (simp add: as_points_def Graph_init_pairs Graph_init_parallel) (simp add: Graph_init_def)

theorem Graph_as_points_and_pairs_witness:
  "[(0::int, 5::int), (10, 7)] \<noteq> [] \<and>
   Graph_init [1] [2] (Some [(0::int, 5::int), (10, 7)]) = Graph_init [0, 10] [5, 7] None \<and>
   as_points (Graph_init [1] [2] (Some [(0::int, 5::int), (10, 7)])) = [(0, 5), (10, 7)] \<and>
   length (as_points \<lparr>times = [0::int, 10, 20], values' = [5::int, 7]\<rparr>) = 2"
  using Graph_as_points_and_pairs [of "\<lparr>times = [0::int, 10, 20], values' = [5::int, 7]\<rparr>"
      "[(0::int, 5::int), (10, 7)]" "[1]" "[2]"]
  by (simp add: Graph_init_parallel as_points_def)

text \<open>
  The claim as the specification states it fails for the empty list of pairs: passed
  beside one time and one value, it gives a graph that holds them, while the two
  unzipped sequences of the empty list give the empty graph.
\<close>

theorem Graph_init_empty_pairs_counterexample:
  "Graph_init [1::int] [2::int] (Some []) = \<lparr>times = [1], values' = [2]\<rparr> \<and>
   Graph_init (map fst ([]::(int \<times> int) list)) (map snd ([]::(int \<times> int) list)) None
     = \<lparr>times = [], values' = []\<rparr>"
  by (simp add: Graph_init_def)

section \<open>Claims about Player\<close>

text \<open>
  Claim C6. A team object at reference \<open>t\<close>, and any player \<open>p\<close> whose \<^verbatim>\<open>team\<close> is
  that reference: after \<^verbatim>\<open>team.result = r\<close> (the claim's \<^verbatim>\<open>"Win"\<close> is one such
  \<open>r\<close>) the read of \<^verbatim>\<open>p.result\<close> returns \<open>r\<close>. The player \<open>p\<close> is the same before and
  after: nothing of it is written. In the heap the assignment changes the
  \<^verbatim>\<open>result\<close> attribute of that one team object and nothing else: its number, lineup
  and list of players, every other team, every list and every dictionary stay. A player
  has no result of its own: two players with the same \<^verbatim>\<open>team\<close> read the same
  result in every heap.
\<close>

theorem Player_result_reads_team_result:
  assumes "teams h t = Some tm" and "team p = Some t"
  shows "Player_result (Team_set_result t r h) p = Inr r \<and>
    teams (Team_set_result t r h) = (teams h)(t \<mapsto> tm\<lparr>result := r\<rparr>) \<and>
    lists (Team_set_result t r h) = lists h \<and>
    dicts (Team_set_result t r h) = dicts h \<and>
    next_ref (Team_set_result t r h) = next_ref h \<and>
    (\<forall>h' q. team q = team p \<longrightarrow> Player_result h' q = Player_result h' p)"
  using assms by (simp add: Player_result_def Team_set_result_def)

text \<open>
  The witness: in the heap of the loaded module a team is created (its reference is
  4), two players are created and linked to it, and its result is set to
  \<^verbatim>\<open>"Win"\<close>; both players read \<^verbatim>\<open>"Win"\<close>, and before the assignment they read
  \<^verbatim>\<open>"Unknown"\<close>.
\<close>

theorem Player_result_reads_team_result_witness:
  "fst (Team_init 1 module_heap) = 4 \<and>
   Player_result (snd (Team_init 1 module_heap))
     ((fst (Player_init 1 ''alice'' (snd (Team_init 1 module_heap))))\<lparr>team := Some 4\<rparr>)
     = Inr ''Unknown'' \<and>
   Player_result (Team_set_result 4 ''Win'' (snd (Team_init 1 module_heap)))
     ((fst (Player_init 1 ''alice'' (snd (Team_init 1 module_heap))))\<lparr>team := Some 4\<rparr>)
     = Inr ''Win'' \<and>
   Player_result (Team_set_result 4 ''Win'' (snd (Team_init 1 module_heap)))
     ((fst (Player_init 2 ''bob'' (snd (Team_init 1 module_heap))))\<lparr>team := Some 4\<rparr>)
     = Inr ''Win''"
proof -
  let ?h = "snd (Team_init 1 module_heap)"
  let ?tm = "\<lparr>number = 1, players = [], result = ''Unknown'', lineup = []\<rparr>"
  let ?a = "(fst (Player_init 1 ''alice'' ?h))\<lparr>team := Some 4\<rparr>"
  let ?b = "(fst (Player_init 2 ''bob'' ?h))\<lparr>team := Some 4\<rparr>"
  have t: "teams ?h 4 = Some ?tm"
    by (simp add: Team_init_def module_heap_def)
  have a: "team ?a = Some 4" and b: "team ?b = Some 4"
    by simp_all
  have r: "fst (Team_init 1 module_heap) = 4"
    by (simp add: Team_init_def module_heap_def)
  have u: "Player_result ?h ?a = Inr ''Unknown''"
    using t a by (simp add: Player_result_def)
  have wa: "Player_result (Team_set_result 4 ''Win'' ?h) ?a = Inr ''Win''"
    using Player_result_reads_team_result [OF t a, of "''Win''"] by (rule conjunct1)
  have wb: "Player_result (Team_set_result 4 ''Win'' ?h) ?b = Inr ''Win''"
    using Player_result_reads_team_result [OF t b, of "''Win''"] by (rule conjunct1)
  from r u wa wb show ?thesis
    by (simp only: simp_thms)
qed

text \<open>
  Claim C7, as amended. \<^verbatim>\<open>url\<close> reads the attributes \<^verbatim>\<open>gateway\<close>, \<^verbatim>\<open>uid\<close>,
  \<^verbatim>\<open>subregion\<close> and \<^verbatim>\<open>name\<close>: for a player whose \<^verbatim>\<open>gateway\<close> and \<^verbatim>\<open>uid\<close> are
  assigned it returns
  \<^verbatim>\<open>http://{gateway}.battle.net/sc2/en/profile/{uid}/{subregion}/{name}/\<close>, the two
  integers in decimal; no attribute is tested for being empty or a default. The
  attribute \<^verbatim>\<open>region\<close> is not read: changing it leaves the url as it is.
\<close>

theorem url_of_gateway_uid_subregion_name:
  assumes "gateway p = Some g" and "uid p = Some u"
  shows "url p =
      Inr (''http://'' @ g @ ''.battle.net/sc2/en/profile/'' @ str_int u @ ''/''
            @ str_int (subregion p) @ ''/'' @ name p @ ''/'') \<and>
    url (p\<lparr>region := r\<rparr>) = url p"
  using assms by (simp add: url_def URL_TEMPLATE_def)

theorem url_of_gateway_uid_subregion_name_witness:
  "url \<lparr>pid = 1, name = ''bob'', is_observer = Some False, messages = 4, events = 5,
        is_human = True, recorder = False, team = None, color = None,
        pick_race = ''Terran'', play_race = ''Terran'', difficulty = ''Medium'',
        handicap = 100, region = ''us'', subregion = 1, gateway = Some ''us'',
        uid = Some 2048576\<rparr>
     = Inr ''http://us.battle.net/sc2/en/profile/2048576/1/bob/''"
proof -
  let ?p = "\<lparr>pid = 1, name = ''bob'', is_observer = Some False, messages = 4, events = 5,
        is_human = True, recorder = False, team = None, color = None,
        pick_race = ''Terran'', play_race = ''Terran'', difficulty = ''Medium'',
        handicap = 100, region = ''us'', subregion = 1, gateway = Some ''us'',
        uid = Some 2048576\<rparr>"
  have g: "gateway ?p = Some ''us''" and u: "uid ?p = Some 2048576"
    by simp_all
  have n: "str_int 2048576 = ''2048576''" "str_int 1 = ''1''"
    by (simp_all add: str_int_def str_nat.simps char_of_def bit_0)
  show ?thesis
    using url_of_gateway_uid_subregion_name [OF g u, of "''us''"] n by simp
qed

text \<open>
  The claim as the specification states it fails: a player whose \<^verbatim>\<open>region\<close>,
  \<^verbatim>\<open>uid\<close>, \<^verbatim>\<open>subregion\<close> and \<^verbatim>\<open>name\<close> are all set, with the region
  \<^verbatim>\<open>"us"\<close>, has the url of its \<^verbatim>\<open>gateway\<close>, here \<^verbatim>\<open>"eu"\<close>; and with no
  \<^verbatim>\<open>gateway\<close> assigned the read of \<^verbatim>\<open>url\<close> raises \<^verbatim>\<open>AttributeError\<close>.
\<close>

theorem url_ignores_region_counterexample:
  "url \<lparr>pid = 1, name = ''bob'', is_observer = Some False, messages = 4, events = 5,
        is_human = True, recorder = False, team = None, color = None,
        pick_race = ''Terran'', play_race = ''Terran'', difficulty = ''Medium'',
        handicap = 100, region = ''us'', subregion = 1, gateway = Some ''eu'',
        uid = Some 2\<rparr>
     = Inr ''http://eu.battle.net/sc2/en/profile/2/1/bob/'' \<and>
   url \<lparr>pid = 1, name = ''bob'', is_observer = Some False, messages = 4, events = 5,
        is_human = True, recorder = False, team = None, color = None,
        pick_race = ''Terran'', play_race = ''Terran'', difficulty = ''Medium'',
        handicap = 100, region = ''us'', subregion = 1, gateway = None,
        uid = Some 2\<rparr>
     = Inl AttributeError"
  by (simp add: url_def URL_TEMPLATE_def str_int_def str_nat.simps char_of_def bit_0)

section \<open>Claims about the containers\<close>

text \<open>
  The constructor of \<^verbatim>\<open>Person\<close> assigns new lists to \<^verbatim>\<open>self.messages\<close> and
  \<^verbatim>\<open>self.events\<close>: the four lists of two persons created one after the other are
  four different objects, none of them a list of the class, and appending a message to
  the first person's list leaves the other three lists as they were.
\<close>

lemma Person_init_containers:
  assumes "Person_init pid1 name1 h = (a, h1)" and "Person_init pid2 name2 h1 = (b, h2)"
  shows "distinct [messages a, events a, messages b, events b]"
    and "lists (list_append (messages a) m h2) (events a) = lists h2 (events a)"
    and "lists (list_append (messages a) m h2) (messages b) = lists h2 (messages b)"
    and "lists (list_append (messages a) m h2) (events b) = lists h2 (events b)"
  using assms
  by (auto simp: Person_init_def new_list_def list_append_def split: option.splits)

text \<open>
  Claim C10. The constructor of \<^verbatim>\<open>PlayerSummary\<close> assigns its two new dictionaries
  to local variables, so an instance has no \<^verbatim>\<open>stats\<close> and no \<^verbatim>\<open>unknown2\<close> of its
  own and reads those of the class. Two summaries created one after the other in the
  heap of the loaded module: \<^verbatim>\<open>stats\<close> of both is the one dictionary of the class,
  and after \<^verbatim>\<open>a.stats['R'] = 5\<close> on the first, \<^verbatim>\<open>b.stats\<close> of the second holds
  \<^verbatim>\<open>'R'\<close> with 5, where it held nothing before.
\<close>

theorem PlayerSummary_stats_shared:
  "(case PlayerSummary_init 1 module_heap of (a, h1) \<Rightarrow>
     (case PlayerSummary_init 2 h1 of (b, h2) \<Rightarrow>
        stats_ref a = PlayerSummary_stats \<and>
        stats_ref b = PlayerSummary_stats \<and>
        unknown2_ref a = unknown2_ref b \<and>
        stats_get h2 b ''R'' = None \<and>
        stats_get (stats_setitem a ''R'' 5 h2) b ''R'' = Some 5))"
  by (simp add: PlayerSummary_init_def new_dict_def module_heap_def stats_ref_def
      unknown2_ref_def stats_get_def stats_setitem_def dict_setitem_def
      PlayerSummary_stats_def PlayerSummary_unknown2_def)

section \<open>Claims about Team.hash\<close>




end
